theory Spec2Isabelle
  imports Complex_Main
begin

section \<open>Python values shared by the three modules\<close>

text \<open>
  The values that travel through the JSON bodies and the provider payloads.  A number is
  the real value of a finite double or of an \<open>int\<close>; the arithmetic on numbers is
  rounded to double precision below.  A \<open>dict\<close> with string keys is the list of its
  items in insertion order.
\<close>

datatype pyval =
    PNone | PBool bool | PNum real | PStr string | PList "pyval list"
  | PDict "(string \<times> pyval) list"

text \<open>
  The exceptions the modelled code can raise; \<open>HTTPException\<close> is what
  \<open>request.get_json()\<close> raises when the request carries no decodable JSON.
\<close>

datatype py_error =
  TypeError | ValueError | AttributeError | OverflowError | KeyError | HTTPException

text \<open>
  \<open>d.get(k)\<close>, \<open>d.get(k, default)\<close>, \<open>d[k] = v\<close> and \<open>d.update({...})\<close>:
\<close>

type_synonym pydict = "(string \<times> pyval) list"

definition dict_get :: "pydict \<Rightarrow> string \<Rightarrow> pyval" where
  "dict_get d k = (case map_of d k of None \<Rightarrow> PNone | Some v \<Rightarrow> v)"

definition dict_get_default :: "pydict \<Rightarrow> string \<Rightarrow> pyval \<Rightarrow> pyval" where
  "dict_get_default d k dflt = (case map_of d k of None \<Rightarrow> dflt | Some v \<Rightarrow> v)"

fun dict_set :: "pydict \<Rightarrow> string \<Rightarrow> pyval \<Rightarrow> pydict" where
  "dict_set [] k v = [(k, v)]"
| "dict_set ((k', v') # d) k v = (if k' = k then (k, v) # d else (k', v') # dict_set d k v)"

fun dict_update :: "pydict \<Rightarrow> pydict \<Rightarrow> pydict" where
  "dict_update d [] = d"
| "dict_update d ((k, v) # kvs) = dict_update (dict_set d k v) kvs"

text \<open>Truth value of an object in a condition.\<close>

fun truthy :: "pyval \<Rightarrow> bool" where
  "truthy PNone = False"
| "truthy (PBool b) = b"
| "truthy (PNum x) = (x \<noteq> 0)"
| "truthy (PStr s) = (s \<noteq> [])"
| "truthy (PList l) = (l \<noteq> [])"
| "truthy (PDict d) = (d \<noteq> [])"

text \<open>
  The operand of a comparison with a number or of float arithmetic: a number or a
  \<open>bool\<close> (an \<open>int\<close> subclass); anything else makes the operation raise
  \<open>TypeError\<close>.
\<close>

fun as_number :: "pyval \<Rightarrow> real option" where
  "as_number (PNum x) = Some x"
| "as_number (PBool b) = Some (if b then 1 else 0)"
| "as_number _ = None"

text \<open>
  Python's one-argument \<open>round\<close> on a float rounds its exact value to the nearest
  integer and sends an exact half to the even neighbour.
\<close>

definition py_round :: "real \<Rightarrow> int" where
  "py_round x =
     (let f = \<lfloor>x\<rfloor>; d = x - of_int f
      in if d < 1 / 2 then f else if 1 / 2 < d then f + 1
         else if even f then f else f + 1)"

text \<open>
  Double precision (IEEE 754 binary64, round to nearest, ties to even).  The binary
  exponent of a positive number is found by halving and doubling; the fuel covers every
  exponent from the smallest subnormal up.  A number is rounded to a multiple of the
  spacing of the doubles at its exponent, the exponent of the subnormals being that of
  the smallest normal double.  Overflow to infinity and NaN are not modelled.
\<close>

primrec binary_exponent :: "nat \<Rightarrow> real \<Rightarrow> int" where
  "binary_exponent 0 x = 0"
| "binary_exponent (Suc fuel) x =
     (if 2 \<le> x then binary_exponent fuel (x / 2) + 1
      else if x < 1 then binary_exponent fuel (2 * x) - 1
      else 0)"

definition two_to :: "int \<Rightarrow> real" where
  "two_to e = (if 0 \<le> e then 2 ^ nat e else 1 / 2 ^ nat (- e))"

definition to_double :: "real \<Rightarrow> real" where
  "to_double x =
     (if x = 0 then 0
      else (let e = max (binary_exponent 2200 \<bar>x\<bar>) (- 1022); ulp = two_to (e - 52)
            in of_int (py_round (x / ulp)) * ulp))"

text \<open>The four operations on floats: the exact result, rounded.\<close>

definition fadd :: "real \<Rightarrow> real \<Rightarrow> real" where
  "fadd x y = to_double (x + y)"

definition fsub :: "real \<Rightarrow> real \<Rightarrow> real" where
  "fsub x y = to_double (x - y)"

definition fmul :: "real \<Rightarrow> real \<Rightarrow> real" where
  "fmul x y = to_double (x * y)"

definition fdiv :: "real \<Rightarrow> real \<Rightarrow> real" where
  "fdiv x y = to_double (x / y)"

text \<open>
  \<open>round(x, n)\<close>: the exact value of \<open>x\<close> rounded at \<open>n\<close> decimals, halves to
  even, and the double nearest to that decimal.
\<close>

definition py_round_to :: "nat \<Rightarrow> real \<Rightarrow> real" where
  "py_round_to n x = to_double (of_int (py_round (x * 10 ^ n)) / 10 ^ n)"

text \<open>
  \<open>int(v)\<close>: a float is truncated towards zero, a \<open>bool\<close> is 0 or 1, a string is
  parsed by the built-in parser \<open>parse\<close> (\<open>None\<close> where it raises
  \<open>ValueError\<close>), \<open>None\<close>, lists and dicts raise \<open>TypeError\<close>.
\<close>

fun py_int :: "(string \<Rightarrow> int option) \<Rightarrow> pyval \<Rightarrow> py_error + int" where
  "py_int parse (PNum x) = Inr (if 0 \<le> x then \<lfloor>x\<rfloor> else \<lceil>x\<rceil>)"
| "py_int parse (PBool b) = Inr (if b then 1 else 0)"
| "py_int parse (PStr s) = (case parse s of None \<Rightarrow> Inl ValueError | Some n \<Rightarrow> Inr n)"
| "py_int parse PNone = Inl TypeError"
| "py_int parse (PList l) = Inl TypeError"
| "py_int parse (PDict d) = Inl TypeError"

text \<open>
  \<open>random.uniform(a, b)\<close> is \<open>a + (b - a) * random()\<close>, here from the draw \<open>u\<close>
  of \<open>random()\<close>.
\<close>

definition uniform :: "real \<Rightarrow> real \<Rightarrow> real \<Rightarrow> real" where
  "uniform a b u = fadd a (fmul (fsub b a) u)"

section \<open>forecaster.py: \<open>AirPollutionForecaster.get_air_quality_index\<close>\<close>

text \<open>A breakpoint row \<open>(bp_lo, bp_hi, aqi_lo, aqi_hi)\<close>.\<close>

type_synonym bracket = "real \<times> real \<times> real \<times> real"

definition aqi_breakpoints :: "(string \<times> bracket list) list" where
  "aqi_breakpoints =
     [(''PM2.5'', [(0, 30, 0, 50), (30, 60, 51, 100), (60, 90, 101, 200),
                   (90, 120, 201, 300), (120, 250, 301, 400)]),
      (''PM10'',  [(0, 50, 0, 50), (50, 100, 51, 100), (100, 250, 101, 200),
                   (250, 350, 201, 300), (350, 430, 301, 400)]),
      (''NO2'',   [(0, 40, 0, 50), (40, 80, 51, 100), (80, 180, 101, 200),
                   (180, 280, 201, 300), (280, 400, 301, 400)])]"

text \<open>
  The inner \<open>for\<close> over the rows of one pollutant: the first row whose closed interval
  holds the level yields the sub-index and ends the loop (\<open>break\<close>); when no row holds
  it the loop runs out and nothing is computed.  The entries of a row are integers, so
  the two differences of entries are exact; the quotient, the difference with the level,
  the product and the sum are float operations.
\<close>

fun bracket_scan :: "bracket list \<Rightarrow> real \<Rightarrow> real option" where
  "bracket_scan [] level = None"
| "bracket_scan ((bp_lo, bp_hi, aqi_lo, aqi_hi) # rows) level =
     (if bp_lo \<le> level \<and> level \<le> bp_hi
      then Some (fadd (fmul (fdiv (aqi_hi - aqi_lo) (bp_hi - bp_lo)) (fsub level bp_lo)) aqi_lo)
      else bracket_scan rows level)"

text \<open>
  The outer \<open>for pollutant, level in pollutant_levels.items()\<close>, with the pair
  \<open>(max_aqi, dominant_pollutant)\<close> as the loop state.  The dict is given as the list
  of its items in iteration order.
\<close>

fun aqi_loop :: "(string \<times> real) list \<Rightarrow> real \<times> string option \<Rightarrow> real \<times> string option" where
  "aqi_loop [] st = st"
| "aqi_loop ((pollutant, level) # rest) (max_aqi, dominant) =
     (case map_of aqi_breakpoints pollutant of
        None \<Rightarrow> aqi_loop rest (max_aqi, dominant)
      | Some rows \<Rightarrow>
          (case bracket_scan rows level of
             None \<Rightarrow> aqi_loop rest (max_aqi, dominant)
           | Some a \<Rightarrow>
               if a > max_aqi then aqi_loop rest (a, Some pollutant)
               else aqi_loop rest (max_aqi, dominant)))"

text \<open>The \<open>if/elif\<close> chain of lines 403-417.\<close>

definition forecaster_category :: "real \<Rightarrow> string \<times> string" where
  "forecaster_category max_aqi =
     (if max_aqi \<le> 50 then (''Good'', ''green'')
      else if max_aqi \<le> 100 then (''Satisfactory'', ''yellow'')
      else if max_aqi \<le> 200 then (''Moderate'', ''orange'')
      else if max_aqi \<le> 300 then (''Poor'', ''red'')
      else (''Very Poor'', ''maroon''))"

record aqi_result =
  aqi :: int
  category :: string
  color :: string
  dominant_pollutant :: "string option"

definition get_air_quality_index :: "(string \<times> real) list \<Rightarrow> aqi_result" where
  "get_air_quality_index pollutant_levels =
     (case aqi_loop pollutant_levels (0, None) of
        (max_aqi, dominant) \<Rightarrow>
          \<lparr> aqi = py_round max_aqi,
            category = fst (forecaster_category max_aqi),
            color = snd (forecaster_category max_aqi),
            dominant_pollutant = dominant \<rparr>)"

section \<open>real_data_fetcher.py: \<open>calculate_aqi_from_pm25\<close>\<close>

text \<open>
  A decimal literal denotes the double nearest to it (\<open>12.0\<close> is exact); each
  operation is a float operation, in the order the expression is evaluated.
\<close>

definition calculate_aqi_from_pm25 :: "real \<Rightarrow> real" where
  "calculate_aqi_from_pm25 pm25 =
     (if pm25 \<le> 12.0 then fdiv (fmul pm25 50) 12.0
      else if pm25 \<le> to_double 35.4
      then fadd 50 (fdiv (fmul (fsub pm25 12.0) 50) (fsub (to_double 35.4) 12.0))
      else if pm25 \<le> to_double 55.4
      then fadd 100 (fdiv (fmul (fsub pm25 (to_double 35.4)) 50)
                          (fsub (to_double 55.4) (to_double 35.4)))
      else if pm25 \<le> to_double 150.4
      then fadd 150 (fdiv (fmul (fsub pm25 (to_double 55.4)) 50)
                          (fsub (to_double 150.4) (to_double 55.4)))
      else if pm25 \<le> to_double 250.4
      then fadd 200 (fdiv (fmul (fsub pm25 (to_double 150.4)) 100)
                          (fsub (to_double 250.4) (to_double 150.4)))
      else fadd 300 (fdiv (fmul (fsub pm25 (to_double 250.4)) 100)
                          (fsub (to_double 350.4) (to_double 250.4))))"

section \<open>real_data_fetcher.py: the providers and the reconciler\<close>

text \<open>
  Everything outside the program that a request reads: the clock, the draws of the
  random generator, the sine of the C library, the answers of the three upstream
  services and the built-in string parser of \<open>int\<close>.  An upstream answer is the
  payload the fetch function would build from the response, \<open>None\<close> when the request
  or the extraction raises.
\<close>

record moment =
  hour_of_day :: nat
  day_of_week :: nat
  day_of_year :: nat
  stamp :: string
  day_name :: string
  date_text :: string

record world =
  now_value :: pyval
  now_stamp :: string
  clock_hour :: nat
  later :: "nat \<Rightarrow> moment"
  days_ago :: "nat \<Rightarrow> string option"
  draw :: "nat \<Rightarrow> real"
  math_sin :: "real \<Rightarrow> real"
  openweather_http :: "string \<Rightarrow> pydict option"
  airvisual_http :: "string \<Rightarrow> pydict option"
  waqi_http :: "string \<Rightarrow> pydict option"
  int_of_str :: "string \<Rightarrow> int option"

text \<open>The instance attributes that \<open>__init__\<close> assigns (lines 18-31).\<close>

definition fetcher_attributes :: "string list" where
  "fetcher_attributes = [''openweather_api_key'', ''city_coords'']"

definition city_coords :: "(string \<times> real \<times> real) list" where
  "city_coords =
     [(''Mumbai'', 19.0760, 72.8777), (''Delhi'', 28.7041, 77.1025),
      (''Bangalore'', 12.9716, 77.5946), (''Chennai'', 13.0827, 80.2707),
      (''Kolkata'', 22.5726, 88.3639), (''Hyderabad'', 17.3850, 78.4867)]"

definition city_mapping :: "(string \<times> string \<times> string \<times> string) list" where
  "city_mapping =
     [(''Mumbai'', ''Mumbai'', ''Maharashtra'', ''India''),
      (''Delhi'', ''Delhi'', ''Delhi'', ''India''),
      (''Bangalore'', ''Bangalore'', ''Karnataka'', ''India''),
      (''Chennai'', ''Chennai'', ''Tamil Nadu'', ''India''),
      (''Kolkata'', ''Kolkata'', ''West Bengal'', ''India''),
      (''Hyderabad'', ''Hyderabad'', ''Telangana'', ''India'')]"

text \<open>
  The three fetch functions wrap their whole body in \<open>try/except Exception\<close> and
  return \<open>None\<close> from the handler.  A city that is not a string is either unhashable
  (\<open>TypeError\<close>) or not a key of the table (\<open>ValueError\<close>); reading an attribute that
  \<open>__init__\<close> never assigned raises \<open>AttributeError\<close>.
\<close>

fun fetch_openweather_pollution :: "world \<Rightarrow> pyval \<Rightarrow> pydict option" where
  "fetch_openweather_pollution w (PStr city) =
     (case map_of city_coords city of
        None \<Rightarrow> None
      | Some coords \<Rightarrow>
          if ''openweather_api_key'' \<in> set fetcher_attributes then openweather_http w city
          else None)"
| "fetch_openweather_pollution w _ = None"

fun fetch_airvisual_data :: "world \<Rightarrow> pyval \<Rightarrow> pydict option" where
  "fetch_airvisual_data w (PStr city) =
     (case map_of city_mapping city of
        None \<Rightarrow> None
      | Some city_info \<Rightarrow>
          if ''airvisual_api_key'' \<in> set fetcher_attributes then airvisual_http w city
          else None)"
| "fetch_airvisual_data w _ = None"

fun fetch_waqi_data :: "world \<Rightarrow> pyval \<Rightarrow> pydict option" where
  "fetch_waqi_data w (PStr city) =
     (if ''waqi_token'' \<in> set fetcher_attributes then waqi_http w city else None)"
| "fetch_waqi_data w _ = None"

text \<open>\<open>combine_data_sources\<close>: the body of the loop over \<open>data_sources.items()\<close>.\<close>

fun merge_source :: "pydict \<Rightarrow> string \<times> pydict \<Rightarrow> pydict" where
  "merge_source combined (source_name, source_data) =
     (if source_name = ''openweather'' then
        dict_update combined
          [(''PM2.5'', dict_get source_data ''pm2_5''),
           (''PM10'', dict_get source_data ''pm10''),
           (''NO2'', dict_get source_data ''no2''),
           (''SO2'', dict_get source_data ''so2''),
           (''CO'', dict_get source_data ''co''),
           (''O3'', dict_get source_data ''o3'')]
      else if source_name = ''airvisual'' then
        dict_update combined
          [(''AQI'', dict_get source_data ''aqi_us''),
           (''temperature'', dict_get source_data ''temperature''),
           (''humidity'', dict_get source_data ''humidity''),
           (''pressure'', dict_get source_data ''pressure''),
           (''wind_speed'', dict_get source_data ''wind_speed'')]
      else if source_name = ''waqi'' then
        (let c1 = (if map_of combined ''PM2.5'' = None
                   then dict_set combined ''PM2.5'' (dict_get source_data ''pm25'')
                   else combined);
             c2 = (if map_of c1 ''PM10'' = None
                   then dict_set c1 ''PM10'' (dict_get source_data ''pm10'')
                   else c1)
         in if map_of c2 ''AQI'' = None
            then dict_set c2 ''AQI'' (dict_get source_data ''aqi'')
            else c2)
      else combined)"

primrec merge_loop :: "(string \<times> pydict) list \<Rightarrow> pydict \<Rightarrow> pydict" where
  "merge_loop [] combined = combined"
| "merge_loop (src # rest) combined = merge_loop rest (merge_source combined src)"

text \<open>Lines 231-233: the AQI derived from PM2.5 when no source set the key.\<close>

definition derive_aqi :: "pydict \<Rightarrow> py_error + pydict" where
  "derive_aqi combined =
     (if map_of combined ''AQI'' = None \<and> truthy (dict_get combined ''PM2.5'')
      then (case as_number (dict_get combined ''PM2.5'') of
              None \<Rightarrow> Inl TypeError
            | Some pm25 \<Rightarrow> Inr (dict_set combined ''AQI'' (PNum (calculate_aqi_from_pm25 pm25))))
      else Inr combined)"

text \<open>Lines 235-251.\<close>

definition fetcher_category :: "real \<Rightarrow> string \<times> string" where
  "fetcher_category aqi_value =
     (if aqi_value \<le> 50 then (''Good'', ''#00e400'')
      else if aqi_value \<le> 100 then (''Satisfactory'', ''#ffff00'')
      else if aqi_value \<le> 200 then (''Moderate'', ''#ff7e00'')
      else if aqi_value \<le> 300 then (''Poor'', ''#ff0000'')
      else (''Very Poor'', ''#8f3f97''))"

definition categorise :: "pydict \<Rightarrow> py_error + pydict" where
  "categorise combined =
     (case as_number (dict_get_default combined ''AQI'' (PNum 0)) of
        None \<Rightarrow> Inl TypeError
      | Some aqi_value \<Rightarrow>
          Inr (dict_set (dict_set combined ''category'' (PStr (fst (fetcher_category aqi_value))))
                 ''color'' (PStr (snd (fetcher_category aqi_value)))))"

definition combine_data_sources :: "pyval \<Rightarrow> (string \<times> pydict) list \<Rightarrow> py_error + pydict" where
  "combine_data_sources now data_sources =
     (case derive_aqi
             (merge_loop data_sources
                [(''timestamp'', now),
                 (''sources_used'', PList (map (\<lambda>src. PStr (fst src)) data_sources))]) of
        Inl e \<Rightarrow> Inl e
      | Inr combined \<Rightarrow> categorise combined)"

text \<open>
  \<open>fetch_combined_data\<close>: a fetched payload enters \<open>results\<close> when it is truthy, that
  is neither \<open>None\<close> nor an empty dict.
\<close>

fun fetched :: "string \<Rightarrow> pydict option \<Rightarrow> (string \<times> pydict) list" where
  "fetched name None = []"
| "fetched name (Some payload) = (if payload = [] then [] else [(name, payload)])"

definition fetch_combined_data :: "world \<Rightarrow> pyval \<Rightarrow> py_error + pydict option" where
  "fetch_combined_data w city =
     (let results = fetched ''openweather'' (fetch_openweather_pollution w city)
                  @ fetched ''airvisual'' (fetch_airvisual_data w city)
                  @ fetched ''waqi'' (fetch_waqi_data w city)
      in if results \<noteq> []
         then (case combine_data_sources (now_value w) results of
                 Inl e \<Rightarrow> Inl e
               | Inr combined \<Rightarrow> Inr (Some combined))
         else Inr None)"

section \<open>app.py: the synthetic generators\<close>

text \<open>The values of the list that \<open>/api/cities\<close> returns.\<close>

definition supported_cities :: "string list" where
  "supported_cities =
     [''Mumbai'', ''Delhi'', ''Bangalore'', ''Chennai'', ''Kolkata'', ''Hyderabad'']"

text \<open>
  The table \<open>base_pollution\<close>, written out identically in the three generators, and
  \<open>base_pollution.get(city, 75)\<close>: a list or dict is unhashable and raises
  \<open>TypeError\<close>, any other value that is not a key yields the default.
\<close>

definition base_pollution :: "(string \<times> real) list" where
  "base_pollution =
     [(''Mumbai'', 80), (''Delhi'', 150), (''Bangalore'', 60),
      (''Chennai'', 70), (''Kolkata'', 100), (''Hyderabad'', 75)]"

fun base_pollution_get :: "pyval \<Rightarrow> py_error + real" where
  "base_pollution_get (PStr city) =
     Inr (case map_of base_pollution city of None \<Rightarrow> 75 | Some b \<Rightarrow> b)"
| "base_pollution_get (PList l) = Inl TypeError"
| "base_pollution_get (PDict d) = Inl TypeError"
| "base_pollution_get _ = Inr 75"

text \<open>
  \<open>generate_current_conditions\<close>, lines 309-318 and the rest of the body.  The base
  is an integer; every product and sum is a float operation and every decimal literal
  the double nearest to it.
\<close>

definition current_category :: "real \<Rightarrow> string \<times> string" where
  "current_category aqi_value =
     (if aqi_value \<le> 50 then (''Good'', ''#00e400'')
      else if aqi_value \<le> 100 then (''Satisfactory'', ''#ffff00'')
      else if aqi_value \<le> 200 then (''Moderate'', ''#ff7e00'')
      else if aqi_value \<le> 300 then (''Poor'', ''#ff0000'')
      else (''Very Poor'', ''#8f3f97''))"

definition conditions_from_base :: "world \<Rightarrow> real \<Rightarrow> pydict" where
  "conditions_from_base w base =
     (let rush_hour_effect =
            (if clock_hour w \<in> set [7, 8, 9, 18, 19, 20] then to_double 1.3 else 1.0);
          pm25 = max 10 (fadd (fmul base rush_hour_effect) (uniform (-20) 25 (draw w 0)));
          pm10 = fadd (fmul pm25 (uniform (to_double 1.6) 2.0 (draw w 1)))
                      (uniform (-15) 20 (draw w 2));
          no2 = fadd (fmul (fmul base (to_double 0.4)) rush_hour_effect)
                     (uniform (-12) 15 (draw w 3));
          so2 = fadd (fmul base (to_double 0.2)) (uniform (-8) 10 (draw w 4));
          co = fadd (fmul base (to_double 0.08)) (uniform (-2) 4 (draw w 5));
          o3 = fadd 60 (uniform (-25) 35 (draw w 6));
          aqi_value = max (fmul pm25 (to_double 2.2))
                          (max (fmul pm10 (to_double 1.1)) (fmul no2 (to_double 1.8)))
      in [(''PM2.5'', PNum (py_round_to 1 pm25)),
          (''PM10'', PNum (py_round_to 1 pm10)),
          (''NO2'', PNum (py_round_to 1 no2)),
          (''SO2'', PNum (py_round_to 1 so2)),
          (''CO'', PNum (py_round_to 2 co)),
          (''O3'', PNum (py_round_to 1 o3)),
          (''AQI'', PNum (of_int (py_round aqi_value))),
          (''category'', PStr (fst (current_category aqi_value))),
          (''color'', PStr (snd (current_category aqi_value))),
          (''temperature'', PNum (py_round_to 1 (uniform 15 35 (draw w 7)))),
          (''humidity'', PNum (py_round_to 0 (uniform 30 85 (draw w 8)))),
          (''wind_speed'', PNum (py_round_to 1 (uniform 2 20 (draw w 9)))),
          (''pressure'', PNum (py_round_to 1 (uniform 995 1025 (draw w 10)))),
          (''timestamp'', PStr (now_stamp w))])"

definition generate_current_conditions :: "world \<Rightarrow> pyval \<Rightarrow> py_error + pydict" where
  "generate_current_conditions w city =
     (case base_pollution_get city of
        Inl e \<Rightarrow> Inl e
      | Inr base \<Rightarrow> Inr (conditions_from_base w base))"

text \<open>\<open>generate_mock_forecast\<close>: lines 404-413, one iteration, and the loop.\<close>

definition forecast_category :: "real \<Rightarrow> string" where
  "forecast_category aqi_value =
     (if aqi_value \<le> 50 then ''Good''
      else if aqi_value \<le> 100 then ''Satisfactory''
      else if aqi_value \<le> 200 then ''Moderate''
      else if aqi_value \<le> 300 then ''Poor''
      else ''Very Poor'')"

definition forecast_entry :: "world \<Rightarrow> real \<Rightarrow> nat \<Rightarrow> nat \<Rightarrow> pydict" where
  "forecast_entry w base i hour =
     (let t = later w hour;
          seasonal_factor =
            fadd 1 (fmul (to_double 0.3)
                      (math_sin w (fdiv (fmul (fmul 2 (to_double pi)) (real (day_of_year t))) 365)));
          weekend_factor = (if day_of_week t \<ge> 5 then to_double 0.8 else 1.0);
          daily_factor = (if hour_of_day t \<in> set [7, 8, 9, 18, 19, 20] then to_double 1.4
                          else if hour_of_day t \<in> set [2, 3, 4, 5] then to_double 0.7 else 1.0);
          random_factor = uniform (to_double 0.8) (to_double 1.3) (draw w (8 * i));
          total_factor = fmul (fmul (fmul seasonal_factor weekend_factor) daily_factor) random_factor;
          pm25 = max 5 (fadd (fmul (fmul base (to_double 0.6)) total_factor)
                             (uniform (-15) 20 (draw w (8 * i + 1))));
          pm10 = fadd (fmul pm25 (uniform (to_double 1.6) (to_double 2.2) (draw w (8 * i + 2))))
                      (uniform (-10) 15 (draw w (8 * i + 3)));
          no2 = fadd (fmul (fmul base (to_double 0.4)) total_factor)
                     (uniform (-8) 12 (draw w (8 * i + 4)));
          so2 = fadd (fmul (fmul base (to_double 0.2)) total_factor)
                     (uniform (-5) 8 (draw w (8 * i + 5)));
          co = fadd (fmul (fmul base (to_double 0.08)) total_factor)
                    (uniform (-1) 3 (draw w (8 * i + 6)));
          o3 = fadd (fadd 50 (fmul 20 (math_sin w
                       (fdiv (fmul (fmul 2 (to_double pi)) (real (hour_of_day t))) 24))))
                    (uniform (-15) 25 (draw w (8 * i + 7)));
          aqi_value = max (fmul pm25 (to_double 2.2))
                          (max (fmul pm10 (to_double 1.1))
                               (max (fmul no2 (to_double 1.8)) (fmul so2 (to_double 1.5))))
      in [(''timestamp'', PStr (stamp t)),
          (''hour'', PNum (real (hour_of_day t))),
          (''day'', PStr (day_name t)),
          (''date'', PStr (date_text t)),
          (''PM2.5'', PNum (py_round_to 1 pm25)),
          (''PM10'', PNum (py_round_to 1 pm10)),
          (''NO2'', PNum (py_round_to 1 no2)),
          (''SO2'', PNum (py_round_to 1 so2)),
          (''CO'', PNum (py_round_to 2 co)),
          (''O3'', PNum (py_round_to 1 o3)),
          (''AQI'', PNum (of_int (py_round aqi_value))),
          (''category'', PStr (forecast_category aqi_value))])"

definition generate_mock_forecast :: "world \<Rightarrow> pyval \<Rightarrow> int \<Rightarrow> py_error + pydict list" where
  "generate_mock_forecast w city hours =
     (case base_pollution_get city of
        Inl e \<Rightarrow> Inl e
      | Inr base \<Rightarrow>
          (let step = (if hours \<le> 48 then 1 else if hours \<le> 168 then 2 else 4);
               actual_hours = filter (\<lambda>h. h mod step = 0) [0 ..< nat hours]
           in Inr (map (\<lambda>(i, hour). forecast_entry w base i hour)
                     (enumerate 0 actual_hours))))"

text \<open>
  \<open>generate_historical_data\<close>: lines 464-473, one iteration, the loop over
  \<open>range(days)\<close> (a date before year 1 raises \<open>OverflowError\<close>) and the reversal.
\<close>

definition historical_category :: "real \<Rightarrow> string" where
  "historical_category aqi_value =
     (if aqi_value \<le> 50 then ''Good''
      else if aqi_value \<le> 100 then ''Satisfactory''
      else if aqi_value \<le> 200 then ''Moderate''
      else if aqi_value \<le> 300 then ''Poor''
      else ''Very Poor'')"

definition historical_entry :: "world \<Rightarrow> real \<Rightarrow> nat \<Rightarrow> string \<Rightarrow> pydict" where
  "historical_entry w base day date =
     (let daily_variation = uniform (to_double 0.6) 1.5 (draw w (5 * day));
          pm25 = max 15 (fadd (fmul base daily_variation) (uniform (-25) 30 (draw w (5 * day + 1))));
          pm10 = fadd (fmul pm25 (uniform (to_double 1.6) (to_double 2.2) (draw w (5 * day + 2))))
                      (uniform (-20) 25 (draw w (5 * day + 3)));
          no2 = fadd (fmul (fmul base (to_double 0.4)) daily_variation)
                     (uniform (-15) 18 (draw w (5 * day + 4)));
          aqi_value = max (fmul pm25 (to_double 2.2))
                          (max (fmul pm10 (to_double 1.1)) (fmul no2 (to_double 1.8)))
      in [(''date'', PStr date),
          (''PM2.5'', PNum (py_round_to 1 pm25)),
          (''PM10'', PNum (py_round_to 1 pm10)),
          (''NO2'', PNum (py_round_to 1 no2)),
          (''AQI'', PNum (of_int (py_round aqi_value))),
          (''category'', PStr (historical_category aqi_value))])"

primrec historical_loop :: "world \<Rightarrow> real \<Rightarrow> nat list \<Rightarrow> pydict list \<Rightarrow> py_error + pydict list" where
  "historical_loop w base [] historical = Inr historical"
| "historical_loop w base (day # rest) historical =
     (case days_ago w day of
        None \<Rightarrow> Inl OverflowError
      | Some date \<Rightarrow> historical_loop w base rest (historical @ [historical_entry w base day date]))"

definition generate_historical_data :: "world \<Rightarrow> pyval \<Rightarrow> int \<Rightarrow> py_error + pydict list" where
  "generate_historical_data w city days =
     (case base_pollution_get city of
        Inl e \<Rightarrow> Inl e
      | Inr base \<Rightarrow>
          (case historical_loop w base [0 ..< nat days] [] of
             Inl e \<Rightarrow> Inl e
           | Inr historical \<Rightarrow> Inr (rev historical)))"

section \<open>app.py: the request handlers\<close>

text \<open>
  A response is the JSON body with its status code.  The text of a failure is a fixed
  message, \<open>str(e)\<close> of the exception caught, or \<open>"Invalid input: " + str(e)\<close>.
\<close>

datatype error_text = Msg string | ExcText py_error | InvalidInput py_error | NoRealData

datatype response =
    Failure nat error_text
  | Current pyval pydict string
  | Forecast pyval "pydict list" int
  | Historical pyval "pydict list" int

fun status :: "response \<Rightarrow> nat" where
  "status (Failure code text) = code"
| "status _ = 200"

fun success :: "response \<Rightarrow> bool" where
  "success (Failure code text) = False"
| "success _ = True"

text \<open>
  What \<open>request.get_json()\<close> does inside a handler's \<open>try\<close>: it raises when the
  request carries no decodable JSON (no body, another content type, a syntax error), and
  otherwise returns the decoded value, which need not be an object.
\<close>

datatype request_body = NoJson | Json pyval

text \<open>
  \<open>k in data\<close> and \<open>data[k]\<close> for a string \<open>k\<close>: key membership and lookup on a
  dict, element membership on a list, substring test on a string; a number, a
  \<open>bool\<close> or \<open>None\<close> is not iterable, and a list or string has no string index.
\<close>

definition is_substring :: "string \<Rightarrow> string \<Rightarrow> bool" where
  "is_substring k s = list_ex (\<lambda>i. take (length k) (drop i s) = k) [0 ..< Suc (length s)]"

fun key_in :: "string \<Rightarrow> pyval \<Rightarrow> py_error + bool" where
  "key_in k (PDict d) = Inr (map_of d k \<noteq> None)"
| "key_in k (PList l) = Inr (PStr k \<in> set l)"
| "key_in k (PStr s) = Inr (is_substring k s)"
| "key_in k _ = Inl TypeError"

fun subscript :: "pyval \<Rightarrow> string \<Rightarrow> py_error + pyval" where
  "subscript (PDict d) k = (case map_of d k of None \<Rightarrow> Inl KeyError | Some v \<Rightarrow> Inr v)"
| "subscript _ k = Inl TypeError"

text \<open>
  \<open>get_current_conditions\<close>.  The inner \<open>try\<close> turns an absent or falsy reading and
  any exception of the fetch into the synthetic reading; the outer handler answers
  every other exception with a 500.
\<close>

definition synthetic_response :: "world \<Rightarrow> pyval \<Rightarrow> response" where
  "synthetic_response w city =
     (case generate_current_conditions w city of
        Inl e \<Rightarrow> Failure 500 (ExcText e)
      | Inr current_conditions \<Rightarrow> Current city current_conditions ''synthetic'')"

definition get_current_conditions :: "world \<Rightarrow> request_body \<Rightarrow> response" where
  "get_current_conditions w body =
     (case body of
        NoJson \<Rightarrow> Failure 500 (ExcText HTTPException)
      | Json data \<Rightarrow>
          if \<not> truthy data then Failure 400 (Msg ''City parameter is required'')
          else (case key_in ''city'' data of
                  Inl e \<Rightarrow> Failure 500 (ExcText e)
                | Inr False \<Rightarrow> Failure 400 (Msg ''City parameter is required'')
                | Inr True \<Rightarrow>
                    (case subscript data ''city'' of
                       Inl e \<Rightarrow> Failure 500 (ExcText e)
                     | Inr city \<Rightarrow>
                         (case fetch_combined_data w city of
                            Inr (Some real_data) \<Rightarrow>
                              if real_data \<noteq> [] then Current city real_data ''real''
                              else synthetic_response w city
                          | Inr None \<Rightarrow> synthetic_response w city
                          | Inl e \<Rightarrow> synthetic_response w city))))"

text \<open>\<open>get_forecast\<close>: \<open>ValueError\<close> has its own handler, everything else is a 500.\<close>

fun forecast_failure :: "py_error \<Rightarrow> response" where
  "forecast_failure ValueError = Failure 400 (InvalidInput ValueError)"
| "forecast_failure e = Failure 500 (Msg ''Internal server error occurred'')"

definition get_forecast :: "world \<Rightarrow> request_body \<Rightarrow> response" where
  "get_forecast w body =
     (case body of
        NoJson \<Rightarrow> forecast_failure HTTPException
      | Json data \<Rightarrow>
          if \<not> truthy data then Failure 400 (Msg ''City parameter is required'')
          else (case key_in ''city'' data of
                  Inl e \<Rightarrow> forecast_failure e
                | Inr False \<Rightarrow> Failure 400 (Msg ''City parameter is required'')
                | Inr True \<Rightarrow>
                    (case subscript data ''city'' of
                       Inl e \<Rightarrow> forecast_failure e
                     | Inr city \<Rightarrow>
                         (case data of
                            PDict d \<Rightarrow>
                              (case py_int (int_of_str w) (dict_get_default d ''hours'' (PNum 24)) of
                                 Inl e \<Rightarrow> forecast_failure e
                               | Inr hours \<Rightarrow>
                                   if hours < 1 \<or> hours > 168
                                   then Failure 400 (Msg ''Hours must be between 1 and 168'')
                                   else (case generate_mock_forecast w city hours of
                                           Inl e \<Rightarrow> forecast_failure e
                                         | Inr formatted_predictions \<Rightarrow>
                                             Forecast city formatted_predictions hours))
                          | _ \<Rightarrow> forecast_failure AttributeError))))"

text \<open>
  \<open>get_historical_data\<close>: \<open>data.get\<close> exists on a dict only and raises
  \<open>AttributeError\<close> on every other value; the single handler answers every exception
  with a 500.
\<close>

definition get_historical_data :: "world \<Rightarrow> request_body \<Rightarrow> response" where
  "get_historical_data w body =
     (case body of
        NoJson \<Rightarrow> Failure 500 (ExcText HTTPException)
      | Json (PDict data) \<Rightarrow>
          (let city = dict_get_default data ''city'' (PStr ''Mumbai'')
           in case py_int (int_of_str w) (dict_get_default data ''days'' (PNum 7)) of
                Inl e \<Rightarrow> Failure 500 (ExcText e)
              | Inr days \<Rightarrow>
                  (case generate_historical_data w city days of
                     Inl e \<Rightarrow> Failure 500 (ExcText e)
                   | Inr historical_data \<Rightarrow> Historical city historical_data days))
      | Json _ \<Rightarrow> Failure 500 (ExcText AttributeError))"

section \<open>The specification's AQI calculator, in its own words\<close>

text \<open>
  Section 4.1 of the specification: find the bracket \<open>[bp_lo, bp_hi]\<close> containing the
  concentration and interpolate linearly into \<open>[aqi_lo, aqi_hi]\<close>; take the maximum
  sub-index across pollutants; the first pollutant attaining it is dominant.  Where a
  concentration lies on the border of two brackets, the table order decides.

  The interpolation comes twice: \<open>interpolate\<close> is the formula of the specification
  in exact arithmetic, \<open>rounded_interpolate\<close> the same quantity in double precision,
  with the operations in the order of line 396.  The rest is written once, over either.
\<close>

definition interpolate :: "bracket \<Rightarrow> real \<Rightarrow> real" where
  "interpolate b v =
     (case b of (bp_lo, bp_hi, aqi_lo, aqi_hi) \<Rightarrow>
        aqi_lo + (aqi_hi - aqi_lo) * (v - bp_lo) / (bp_hi - bp_lo))"

definition rounded_interpolate :: "bracket \<Rightarrow> real \<Rightarrow> real" where
  "rounded_interpolate b v =
     (case b of (bp_lo, bp_hi, aqi_lo, aqi_hi) \<Rightarrow>
        fadd (fmul (fdiv (aqi_hi - aqi_lo) (bp_hi - bp_lo)) (fsub v bp_lo)) aqi_lo)"

definition holds :: "real \<Rightarrow> bracket \<Rightarrow> bool" where
  "holds v b = (case b of (bp_lo, bp_hi, aqi_lo, aqi_hi) \<Rightarrow> bp_lo \<le> v \<and> v \<le> bp_hi)"

definition sub_index_with :: "(bracket \<Rightarrow> real \<Rightarrow> real) \<Rightarrow> string \<Rightarrow> real \<Rightarrow> real option" where
  "sub_index_with formula p v =
     (case map_of aqi_breakpoints p of
        None \<Rightarrow> None
      | Some rows \<Rightarrow> map_option (\<lambda>b. formula b v) (find (holds v) rows))"

definition sub_indices_with ::
  "(bracket \<Rightarrow> real \<Rightarrow> real) \<Rightarrow> (string \<times> real) list \<Rightarrow> (string \<times> real) list" where
  "sub_indices_with formula ps =
     List.map_filter (\<lambda>(p, v). map_option (Pair p) (sub_index_with formula p v)) ps"

definition max_aqi_with :: "(bracket \<Rightarrow> real \<Rightarrow> real) \<Rightarrow> (string \<times> real) list \<Rightarrow> real" where
  "max_aqi_with formula ps = Max (insert 0 (snd ` set (sub_indices_with formula ps)))"

definition first_attaining :: "real \<Rightarrow> (string \<times> real) list \<Rightarrow> string option" where
  "first_attaining m subs = map_option fst (find (\<lambda>(p, s). s = m) subs)"

definition dominant_with ::
  "(bracket \<Rightarrow> real \<Rightarrow> real) \<Rightarrow> (string \<times> real) list \<Rightarrow> string option" where
  "dominant_with formula ps =
     (if max_aqi_with formula ps = 0 then None
      else first_attaining (max_aqi_with formula ps) (sub_indices_with formula ps))"

text \<open>The specification's reading: the exact formula.\<close>

definition spec_sub_indices :: "(string \<times> real) list \<Rightarrow> (string \<times> real) list" where
  "spec_sub_indices ps = sub_indices_with interpolate ps"

definition spec_max_aqi :: "(string \<times> real) list \<Rightarrow> real" where
  "spec_max_aqi ps = max_aqi_with interpolate ps"

definition spec_dominant :: "(string \<times> real) list \<Rightarrow> string option" where
  "spec_dominant ps = dominant_with interpolate ps"

text \<open>The program's reading: the formula as the doubles compute it.\<close>

definition computed_sub_indices :: "(string \<times> real) list \<Rightarrow> (string \<times> real) list" where
  "computed_sub_indices ps = sub_indices_with rounded_interpolate ps"

definition computed_max_aqi :: "(string \<times> real) list \<Rightarrow> real" where
  "computed_max_aqi ps = max_aqi_with rounded_interpolate ps"

definition computed_dominant :: "(string \<times> real) list \<Rightarrow> string option" where
  "computed_dominant ps = dominant_with rounded_interpolate ps"

text \<open>The running maximum over a list of sub-indices, used to relate the two.\<close>

fun pick :: "(string \<times> real) list \<Rightarrow> real \<times> string option \<Rightarrow> real \<times> string option" where
  "pick [] st = st"
| "pick ((p, s) # xs) (m, d) = (if s > m then pick xs (s, Some p) else pick xs (m, d))"

section \<open>Reading results, and a concrete world\<close>

text \<open>
  A field of the reading a function returns (the reconciler's, a generator's); nothing
  when the function raised.
\<close>

fun combined_field :: "py_error + pydict \<Rightarrow> string \<Rightarrow> pyval option" where
  "combined_field (Inl e) k = None"
| "combined_field (Inr combined) k = map_of combined k"

text \<open>
  A world at ten in the morning in which OpenWeather answers for every city it is asked
  about, every draw is one half, the sine is correctly rounded and \<open>int\<close> parses no
  string.
\<close>

definition sample_moment :: "nat \<Rightarrow> moment" where
  "sample_moment h =
     \<lparr> hour_of_day = (10 + h) mod 24, day_of_week = 2, day_of_year = 100,
       stamp = ''2024-04-09 10:00:00'', day_name = ''Tue'', date_text = ''04/09'' \<rparr>"

definition sample_world :: world where
  "sample_world =
     \<lparr> now_value = PStr ''2024-04-09T10:00:00'',
       now_stamp = ''2024-04-09 10:00:00'',
       clock_hour = 10,
       later = sample_moment,
       days_ago = (\<lambda>d. Some ''2024-04-09''),
       draw = (\<lambda>i. 1 / 2),
       math_sin = (\<lambda>x. to_double (sin x)),
       openweather_http = (\<lambda>c. Some [(''pm2_5'', PNum 40), (''pm10'', PNum 80)]),
       airvisual_http = (\<lambda>c. None),
       waqi_http = (\<lambda>c. None),
       int_of_str = (\<lambda>s. None) \<rparr>"

section \<open>Properties of the float operations\<close>

lemma binary_exponent_numeral:
  "binary_exponent (numeral k) x =
     (if 2 \<le> x then binary_exponent (pred_numeral k) (x / 2) + 1
      else if x < 1 then binary_exponent (pred_numeral k) (2 * x) - 1
      else 0)"
  by (simp add: numeral_eq_Suc)

text \<open>
  Rounding is unfolded at numerals only, so that a simplification evaluates closed terms
  and leaves every other term alone.
\<close>

lemma to_double_zero: "to_double 0 = 0"
  by (simp add: to_double_def)

lemma to_double_one: "to_double 1 = 1"
  by (simp add: to_double_def two_to_def py_round_def binary_exponent_numeral)

lemmas to_double_numeral =
  to_double_def [of "numeral a"] to_double_def [of "- numeral a"]
  to_double_def [of "numeral a / numeral b"] to_double_def [of "- (numeral a / numeral b)"]
  to_double_def [of "1 / numeral b"] to_double_def [of "- (1 / numeral b)"]
  to_double_def [of "- 1"]
  for a b

lemmas float_eval =
  to_double_zero to_double_one to_double_numeral fadd_def fsub_def fmul_def fdiv_def
  two_to_def py_round_def binary_exponent_numeral Let_def

text \<open>
  The exponent search finds the binary exponent, and rounding moves a number by at most
  half the spacing of the doubles at its exponent.
\<close>

lemma two_to_powr: "two_to e = 2 powr (real_of_int e)"
proof (cases "0 \<le> e")
  case True
  then show ?thesis by (simp add: two_to_def powr_realpow [symmetric])
next
  case False
  then have "2 powr (real_of_int e) = 1 / 2 powr (real (nat (- e)))"
    by (simp add: powr_minus_divide [symmetric])
  then show ?thesis using False by (simp add: two_to_def powr_realpow [symmetric])
qed

lemma two_to_pos: "0 < two_to e"
  by (simp add: two_to_powr)

lemma two_to_succ: "two_to (e + 1) = 2 * two_to e"
  by (simp add: two_to_powr powr_add)

lemma two_to_pred: "two_to (e - 1) = two_to e / 2"
  by (simp add: two_to_powr powr_diff)

lemma two_to_mono: "a \<le> b \<Longrightarrow> two_to a \<le> two_to b"
  by (simp add: two_to_powr)

lemma binary_exponent_bounds:
  assumes "two_to (- int n) \<le> x" and "x < two_to (int n + 1)"
  shows "two_to (binary_exponent n x) \<le> x \<and> x < two_to (binary_exponent n x + 1)"
  using assms
proof (induction n arbitrary: x)
  case 0
  then show ?case by (simp add: two_to_def)
next
  case (Suc n)
  show ?case
  proof (cases "2 \<le> x")
    case True
    have "two_to (- int n) \<le> 1" using two_to_mono [of "- int n" 0] by (simp add: two_to_def)
    then have lo: "two_to (- int n) \<le> x / 2" using True by simp
    have "x < 2 * two_to (int n + 1)" using Suc.prems(2) two_to_succ [of "int n + 1"]
      by (simp add: add.commute)
    then have hi: "x / 2 < two_to (int n + 1)" by simp
    show ?thesis using Suc.IH [OF lo hi] True two_to_succ [of "binary_exponent n (x / 2)"]
      two_to_succ [of "binary_exponent n (x / 2) + 1"] by simp
  next
    case False
    show ?thesis
    proof (cases "x < 1")
      case True
      have eq: "- int (Suc n) = - int n - 1" by simp
      have "two_to (- int n - 1) \<le> x" using Suc.prems(1) unfolding eq .
      then have lo: "two_to (- int n) \<le> 2 * x" using two_to_pred [of "- int n"] by simp
      have "1 \<le> two_to (int n)" using two_to_mono [of 0 "int n"] by (simp add: two_to_def)
      then have hi: "2 * x < two_to (int n + 1)" using True two_to_succ [of "int n"] by simp
      show ?thesis using Suc.IH [OF lo hi] True two_to_pred [of "binary_exponent n (2 * x)"]
        two_to_pred [of "binary_exponent n (2 * x) + 1"] by simp
    next
      case False
      then show ?thesis using \<open>\<not> 2 \<le> x\<close> by (simp add: two_to_def)
    qed
  qed
qed

lemma py_round_error: "\<bar>of_int (py_round x) - x\<bar> \<le> 1 / 2"
  by (simp add: py_round_def Let_def)

lemma to_double_error:
  "\<bar>to_double x - x\<bar> \<le> two_to (max (binary_exponent 2200 \<bar>x\<bar>) (- 1022) - 53)"
proof (cases "x = 0")
  case True
  then show ?thesis using two_to_pos [of "max (binary_exponent 2200 0) (- 1022) - 53"]
    by (simp add: to_double_def)
next
  case False
  define e where "e = max (binary_exponent 2200 \<bar>x\<bar>) (- 1022)"
  define ulp where "ulp = two_to (e - 52)"
  have pos: "0 < ulp" by (simp add: ulp_def two_to_pos)
  have "to_double x - x = (of_int (py_round (x / ulp)) - x / ulp) * ulp"
    using False pos by (simp add: to_double_def Let_def e_def ulp_def algebra_simps)
  then have "\<bar>to_double x - x\<bar> = \<bar>of_int (py_round (x / ulp)) - x / ulp\<bar> * ulp"
    using pos by (simp add: abs_mult)
  also have "\<dots> \<le> 1 / 2 * ulp" using py_round_error [of "x / ulp"] pos
    by (intro mult_right_mono) simp_all
  also have "\<dots> = two_to (e - 53)" using two_to_pred [of "e - 52"] by (simp add: ulp_def)
  finally show ?thesis by (simp add: e_def)
qed

section \<open>Properties of the AQI calculator\<close>

lemma bracket_scan_find:
  "bracket_scan rows v = map_option (\<lambda>b. rounded_interpolate b v) (find (holds v) rows)"
  by (induction rows v rule: bracket_scan.induct) (simp_all add: rounded_interpolate_def holds_def)

lemma aqi_loop_pick: "aqi_loop ps st = pick (computed_sub_indices ps) st"
proof (induction ps st rule: aqi_loop.induct)
  case (1 st)
  show ?case by (simp add: computed_sub_indices_def sub_indices_with_def List.map_filter_simps)
next
  case (2 pollutant level rest max_aqi dominant)
  then show ?case
    by (auto simp add: computed_sub_indices_def sub_indices_with_def List.map_filter_simps
        sub_index_with_def bracket_scan_find split: option.splits)
qed

lemma Max_insert_pair:
  "finite S \<Longrightarrow> Max (insert a (insert b S)) = Max (insert (max a b) (S::real set))"
  by (cases "S = {}") (simp_all add: max.assoc)

lemma pick_fst: "fst (pick xs (m, d)) = Max (insert m (snd ` set xs))"
proof (induction xs arbitrary: m d)
  case Nil
  show ?case by simp
next
  case (Cons x xs)
  obtain p s where x: "x = (p, s)" by (cases x)
  have M: "Max (insert m (insert s (snd ` set xs))) = Max (insert (max m s) (snd ` set xs))"
    by (rule Max_insert_pair) simp
  show ?case
  proof (cases "s > m")
    case True
    then show ?thesis using x M Cons.IH [of s "Some p"] by (simp add: max_def)
  next
    case False
    then show ?thesis using x M Cons.IH [of m d] by (simp add: max_def)
  qed
qed

lemma pick_snd:
  "snd (pick xs (m, d)) =
     (if \<exists>x \<in> set xs. snd x > m
      then first_attaining (Max (insert m (snd ` set xs))) xs
      else d)"
proof (induction xs arbitrary: m d)
  case Nil
  show ?case by simp
next
  case (Cons x xs)
  obtain p s where x: "x = (p, s)" by (cases x)
  have M: "Max (insert m (insert s (snd ` set xs))) = Max (insert (max m s) (snd ` set xs))"
    by (rule Max_insert_pair) simp
  show ?case
  proof (cases "s > m")
    case True
    note sm = True
    show ?thesis
    proof (cases "\<exists>y \<in> set xs. snd y > s")
      case True
      then obtain y where y: "y \<in> set xs" "snd y > s" by blast
      have "snd y \<le> Max (insert s (snd ` set xs))" using y by simp
      then have "s < Max (insert s (snd ` set xs))" using y by linarith
      then show ?thesis using sm x M True Cons.IH [of s "Some p"]
        by (auto simp add: max_def first_attaining_def)
    next
      case False
      have "Max (insert s (snd ` set xs)) = s"
        using False by (intro Max_eqI) (auto simp: not_less)
      then show ?thesis using sm x M False Cons.IH [of s "Some p"]
        by (auto simp add: max_def first_attaining_def)
    qed
  next
    case False
    note sm = False
    show ?thesis
    proof (cases "\<exists>y \<in> set xs. snd y > m")
      case True
      then obtain y where y: "y \<in> set xs" "snd y > m" by blast
      have "snd y \<le> Max (insert m (snd ` set xs))" using y by simp
      then have "s < Max (insert m (snd ` set xs))" using y sm by linarith
      then show ?thesis using sm x M True Cons.IH [of m d]
        by (auto simp add: max_def first_attaining_def)
    next
      case False
      then show ?thesis using sm x Cons.IH [of m d] by auto
    qed
  qed
qed

lemma Max_insert_zero:
  "finite S \<Longrightarrow> (Max (insert 0 S) = (0::real)) = (\<forall>x\<in>S. x \<le> 0)"
  by (metis Max_ge Max_in finite_insert insert_iff insert_not_empty Max_eqI order_refl)

lemma aqi_loop_max: "fst (aqi_loop ps (0, None)) = computed_max_aqi ps"
  by (simp add: aqi_loop_pick pick_fst computed_max_aqi_def max_aqi_with_def
      computed_sub_indices_def)

lemma aqi_loop_dominant: "snd (aqi_loop ps (0, None)) = computed_dominant ps"
  unfolding aqi_loop_pick pick_snd computed_dominant_def dominant_with_def max_aqi_with_def
    computed_sub_indices_def
  by (auto simp add: Max_insert_zero not_less)

lemmas aqi_spec_eval =
  spec_max_aqi_def spec_dominant_def spec_sub_indices_def
  computed_max_aqi_def computed_dominant_def computed_sub_indices_def
  max_aqi_with_def dominant_with_def sub_indices_with_def sub_index_with_def
  first_attaining_def List.map_filter_simps aqi_breakpoints_def
  interpolate_def rounded_interpolate_def holds_def

text \<open>
  C1 (as amended).  The returned AQI is the maximum sub-index across the pollutants
  (0 when no pollutant has one), rounded to the nearest integer with halves to even;
  the dominant pollutant is the first pollutant attaining that maximum when the maximum
  is positive and is absent when it is 0.  Each sub-index is the interpolation
  \<open>(aqi_hi - aqi_lo) / (bp_hi - bp_lo) * (value - bp_lo) + aqi_lo\<close>, computed in
  double precision, in the first bracket of the pollutant's table that contains the
  value.
\<close>

theorem get_air_quality_index_rounded_max:
  "aqi (get_air_quality_index ps) = py_round (computed_max_aqi ps) \<and>
   dominant_pollutant (get_air_quality_index ps) = computed_dominant ps"
proof -
  obtain m d where loop: "aqi_loop ps (0, None) = (m, d)"
    by (cases "aqi_loop ps (0, None)")
  have "m = computed_max_aqi ps" using aqi_loop_max [of ps] loop by simp
  moreover have "d = computed_dominant ps" using aqi_loop_dominant [of ps] loop by simp
  ultimately show ?thesis by (simp add: get_air_quality_index_def loop)
qed

theorem get_air_quality_index_rounded_max_witness:
  "aqi (get_air_quality_index [(''PM2.5'', 40), (''O3'', 10), (''PM10'', 80), (''NO2'', 500)]) = 80 \<and>
   dominant_pollutant
     (get_air_quality_index [(''PM2.5'', 40), (''O3'', 10), (''PM10'', 80), (''NO2'', 500)])
     = Some ''PM10'' \<and>
   aqi (get_air_quality_index [(''PM2.5'', to_double 3.3)]) = 6 \<and>
   dominant_pollutant (get_air_quality_index [(''PM2.5'', to_double 3.3)]) = Some ''PM2.5''"
  using get_air_quality_index_rounded_max
    [of "[(''PM2.5'', 40), (''O3'', 10), (''PM10'', 80), (''NO2'', 500)]"]
    get_air_quality_index_rounded_max [of "[(''PM2.5'', to_double 3.3)]"]
  by (simp add: aqi_spec_eval float_eval)

text \<open>
  C1 as stated fails three times: a PM2.5 level of 1 has the sub-index 5/3 and the AQI
  returned is 2; a PM2.5 level of 0 attains the maximum 0 and no dominant pollutant is
  returned; PM2.5 at 82 and PM10 at 210 have the same exact sub-index 173.6, so that
  PM2.5 is the first to attain the maximum, but the doubles differ in the last place
  and PM10 is returned.
\<close>

theorem get_air_quality_index_not_plain_max:
  "aqi (get_air_quality_index [(''PM2.5'', 1)]) = 2 \<and>
   spec_max_aqi [(''PM2.5'', 1)] = 5 / 3 \<and>
   dominant_pollutant (get_air_quality_index [(''PM2.5'', 0)]) = None \<and>
   first_attaining (spec_max_aqi [(''PM2.5'', 0)]) (spec_sub_indices [(''PM2.5'', 0)])
     = Some ''PM2.5'' \<and>
   dominant_pollutant (get_air_quality_index [(''PM2.5'', 82), (''PM10'', 210)]) = Some ''PM10'' \<and>
   spec_dominant [(''PM2.5'', 82), (''PM10'', 210)] = Some ''PM2.5''"
  by (simp add: get_air_quality_index_def aqi_spec_eval float_eval)

text \<open>
  C2.  The table calculator is not monotone over all concentrations: PM2.5 at the top
  breakpoint 250 gives AQI 400, and PM2.5 at 251 lies in no row, contributes nothing
  and gives AQI 0 with category Good.  The PM2.5 formula of the fetcher keeps rising
  there.
\<close>

theorem get_air_quality_index_drops_above_table:
  "aqi (get_air_quality_index [(''PM2.5'', 250)]) = 400 \<and>
   aqi (get_air_quality_index [(''PM2.5'', 251)]) = 0 \<and>
   category (get_air_quality_index [(''PM2.5'', 251)]) = ''Good'' \<and>
   calculate_aqi_from_pm25 250 < calculate_aqi_from_pm25 251"
  by (simp add: get_air_quality_index_def aqi_breakpoints_def
      forecaster_category_def calculate_aqi_from_pm25_def float_eval)

text \<open>
  C3 (as amended).  The fetcher's PM2.5 formula returns exactly 50 at PM2.5 = 12.0 and
  exactly 0 at PM2.5 = 0.  The table calculator, on a reading holding only PM2.5,
  returns 0 at PM2.5 = 0 and reaches 50 at the end of its own first bracket,
  PM2.5 = 30.
\<close>

theorem pm25_boundary_values:
  "calculate_aqi_from_pm25 12.0 = 50 \<and>
   calculate_aqi_from_pm25 0 = 0 \<and>
   aqi (get_air_quality_index [(''PM2.5'', 0)]) = 0 \<and>
   aqi (get_air_quality_index [(''PM2.5'', 30)]) = 50"
  by (simp add: get_air_quality_index_def aqi_breakpoints_def
      calculate_aqi_from_pm25_def float_eval)

text \<open>
  C3 as stated fails for the table calculator: a reading holding only PM2.5 = 12.0
  gets AQI 20, not 50.
\<close>

theorem get_air_quality_index_pm25_12:
  "aqi (get_air_quality_index [(''PM2.5'', 12.0)]) = 20"
  by (simp add: get_air_quality_index_def aqi_breakpoints_def float_eval)

section \<open>Properties of the reconciler\<close>

lemma map_of_dict_set: "map_of (dict_set d k v) = (map_of d)(k \<mapsto> v)"
  by (induction d k v rule: dict_set.induct) auto


lemma merge_source_pm25:
  "map_of (merge_source combined (name, source_data)) ''PM2.5'' =
     (if name = ''openweather'' then Some (dict_get source_data ''pm2_5'')
      else if name = ''waqi'' \<and> map_of combined ''PM2.5'' = None
      then Some (dict_get source_data ''pm25'')
      else map_of combined ''PM2.5'')"
  by (simp add: map_of_dict_set Let_def)

lemma merge_source_pm10:
  "map_of (merge_source combined (name, source_data)) ''PM10'' =
     (if name = ''openweather'' then Some (dict_get source_data ''pm10'')
      else if name = ''waqi'' \<and> map_of combined ''PM10'' = None
      then Some (dict_get source_data ''pm10'')
      else map_of combined ''PM10'')"
  by (simp add: map_of_dict_set Let_def)

lemma merge_loop_keeps:
  assumes "''openweather'' \<notin> fst ` set data_sources"
    and "k = ''PM2.5'' \<or> k = ''PM10''"
    and "map_of combined k = Some v"
  shows "map_of (merge_loop data_sources combined) k = Some v"
  using assms
proof (induction data_sources arbitrary: combined)
  case Nil
  then show ?case by simp
next
  case (Cons src rest)
  obtain name source_data where src: "src = (name, source_data)" by (cases src)
  have "map_of (merge_source combined src) k = Some v"
    using Cons.prems src by (auto simp add: merge_source_pm25 merge_source_pm10 simp del: merge_source.simps)
  then show ?case using Cons by (simp del: merge_source.simps)
qed


lemma merge_loop_openweather:
  assumes "distinct (map fst data_sources)"
    and "map_of data_sources ''openweather'' = Some ow"
  shows "map_of (merge_loop data_sources combined) ''PM2.5'' = Some (dict_get ow ''pm2_5'') \<and>
         map_of (merge_loop data_sources combined) ''PM10'' = Some (dict_get ow ''pm10'')"
  using assms
proof (induction data_sources arbitrary: combined)
  case Nil
  then show ?case by simp
next
  case (Cons src rest)
  obtain name source_data where src: "src = (name, source_data)" by (cases src)
  show ?case
  proof (cases "name = ''openweather''")
    case True
    then have ow: "source_data = ow" using Cons.prems src by simp
    have absent: "''openweather'' \<notin> fst ` set rest" using Cons.prems src True by simp
    have "map_of (merge_source combined src) ''PM2.5'' = Some (dict_get ow ''pm2_5'')"
      and "map_of (merge_source combined src) ''PM10'' = Some (dict_get ow ''pm10'')"
      using True ow src by (simp_all add: merge_source_pm25 merge_source_pm10 del: merge_source.simps)
    then show ?thesis using merge_loop_keeps [OF absent] by simp
  next
    case False
    then have "map_of rest ''openweather'' = Some ow" using Cons.prems src by simp
    moreover have "distinct (map fst rest)" using Cons.prems by simp
    ultimately show ?thesis using Cons.IH by simp
  qed
qed

lemma derive_aqi_keeps:
  "derive_aqi combined = Inr c \<Longrightarrow> k \<noteq> ''AQI'' \<Longrightarrow> map_of c k = map_of combined k"
  by (auto simp add: derive_aqi_def map_of_dict_set split: if_splits option.splits)

lemma categorise_keeps:
  "categorise combined = Inr c \<Longrightarrow> k \<noteq> ''category'' \<Longrightarrow> k \<noteq> ''color'' \<Longrightarrow>
   map_of c k = map_of combined k"
  by (auto simp add: categorise_def map_of_dict_set split: option.splits)

lemma combine_data_sources_keeps:
  assumes "combine_data_sources now data_sources = Inr c"
    and "k \<noteq> ''AQI''" "k \<noteq> ''category''" "k \<noteq> ''color''"
  shows "map_of c k =
         map_of (merge_loop data_sources
                   [(''timestamp'', now),
                    (''sources_used'', PList (map (\<lambda>src. PStr (fst src)) data_sources))]) k"
  using assms
  by (auto simp add: combine_data_sources_def split: sum.splits
      dest!: derive_aqi_keeps [where k = k] categorise_keeps [where k = k])

text \<open>
  C6.  When the OpenWeather payload is among the sources, the PM2.5 of the combined
  reading is the value OpenWeather's payload holds under \<open>pm2_5\<close>, whatever the
  other payloads (WAQI's \<open>pm25\<close> among them) hold and in whatever order the sources
  are visited: after the loop, and in every reading the reconciler returns.
\<close>

theorem openweather_pm25_wins:
  assumes "distinct (map fst data_sources)"
    and "map_of data_sources ''openweather'' = Some ow"
  shows "map_of (merge_loop data_sources combined) ''PM2.5'' = Some (dict_get ow ''pm2_5'') \<and>
         (\<forall>c. combine_data_sources now data_sources = Inr c \<longrightarrow>
              map_of c ''PM2.5'' = Some (dict_get ow ''pm2_5''))"
  using merge_loop_openweather [OF assms] combine_data_sources_keeps [where k = "''PM2.5''"]
  by simp

theorem openweather_pm25_wins_witness:
  "distinct (map fst [(''openweather'', [(''pm2_5'', PNum 40), (''pm10'', PNum 80)]),
                      (''waqi'', [(''aqi'', PNum 152), (''pm25'', PNum 55), (''pm10'', PNum 70)])]) \<and>
   map_of [(''openweather'', [(''pm2_5'', PNum 40), (''pm10'', PNum 80)]),
           (''waqi'', [(''aqi'', PNum 152), (''pm25'', PNum 55), (''pm10'', PNum 70)])]
      ''openweather'' = Some [(''pm2_5'', PNum 40), (''pm10'', PNum 80)] \<and>
   combined_field
     (combine_data_sources (PStr ''2024-04-09T10:00:00'')
        [(''openweather'', [(''pm2_5'', PNum 40), (''pm10'', PNum 80)]),
         (''waqi'', [(''aqi'', PNum 152), (''pm25'', PNum 55), (''pm10'', PNum 70)])])
     ''PM2.5'' = Some (PNum 40) \<and>
   combined_field
     (combine_data_sources (PStr ''2024-04-09T10:00:00'')
        [(''openweather'', [(''pm2_5'', PNum 40), (''pm10'', PNum 80)]),
         (''waqi'', [(''aqi'', PNum 152), (''pm25'', PNum 55), (''pm10'', PNum 70)])])
     ''category'' = Some (PStr ''Moderate'')"
proof -
  let ?ow = "[(''pm2_5'', PNum 40), (''pm10'', PNum 80)]"
  let ?ds = "[(''openweather'', ?ow),
              (''waqi'', [(''aqi'', PNum 152), (''pm25'', PNum 55), (''pm10'', PNum 70)])]"
  have d: "distinct (map fst ?ds)" by simp
  have m: "map_of ?ds ''openweather'' = Some ?ow" by simp
  obtain c where c: "combine_data_sources (PStr ''2024-04-09T10:00:00'') ?ds = Inr c"
    and cat: "map_of c ''category'' = Some (PStr ''Moderate'')"
    by (simp add: combine_data_sources_def derive_aqi_def categorise_def dict_get_def
        dict_get_default_def fetcher_category_def)
  have "map_of c ''PM2.5'' = Some (PNum 40)"
    using openweather_pm25_wins [OF d m, of "[]" "PStr ''2024-04-09T10:00:00''"] c
    by (simp add: dict_get_def)
  then show ?thesis using c cat by simp
qed


text \<open>
  C10.  When the OpenWeather payload is among the sources and omits \<open>pm2_5\<close>
  (or \<open>pm10\<close>), the combined reading stores \<open>None\<close> under PM2.5 (or PM10): the
  WAQI branch tests whether the key is present, finds it, and does not fill in its own
  value.
\<close>

theorem omitted_openweather_field_stays_none:
  assumes "distinct (map fst data_sources)"
    and "map_of data_sources ''openweather'' = Some ow"
  shows "(map_of ow ''pm2_5'' = None \<longrightarrow>
            map_of (merge_loop data_sources combined) ''PM2.5'' = Some PNone \<and>
            (\<forall>c. combine_data_sources now data_sources = Inr c \<longrightarrow>
                 map_of c ''PM2.5'' = Some PNone)) \<and>
         (map_of ow ''pm10'' = None \<longrightarrow>
            map_of (merge_loop data_sources combined) ''PM10'' = Some PNone \<and>
            (\<forall>c. combine_data_sources now data_sources = Inr c \<longrightarrow>
                 map_of c ''PM10'' = Some PNone))"
  using merge_loop_openweather [OF assms]
    combine_data_sources_keeps [where k = "''PM2.5''"]
    combine_data_sources_keeps [where k = "''PM10''"]
  by (simp add: dict_get_def)

theorem omitted_openweather_field_stays_none_witness:
  "map_of [(''no2'', PNum 12)] ''pm2_5'' = None \<and>
   map_of [(''no2'', PNum 12)] ''pm10'' = None \<and>
   dict_get [(''aqi'', PNum 152), (''pm25'', PNum 55), (''pm10'', PNum 70)] ''pm25'' = PNum 55 \<and>
   dict_get [(''aqi'', PNum 152), (''pm25'', PNum 55), (''pm10'', PNum 70)] ''pm10'' = PNum 70 \<and>
   combined_field
     (combine_data_sources (PStr ''2024-04-09T10:00:00'')
        [(''openweather'', [(''no2'', PNum 12)]),
         (''waqi'', [(''aqi'', PNum 152), (''pm25'', PNum 55), (''pm10'', PNum 70)])])
     ''PM2.5'' = Some PNone \<and>
   combined_field
     (combine_data_sources (PStr ''2024-04-09T10:00:00'')
        [(''openweather'', [(''no2'', PNum 12)]),
         (''waqi'', [(''aqi'', PNum 152), (''pm25'', PNum 55), (''pm10'', PNum 70)])])
     ''PM10'' = Some PNone"
proof -
  let ?ow = "[(''no2'', PNum 12)]"
  let ?wq = "[(''aqi'', PNum 152), (''pm25'', PNum 55), (''pm10'', PNum 70)]"
  let ?ds = "[(''openweather'', ?ow), (''waqi'', ?wq)]"
  have d: "distinct (map fst ?ds)" by simp
  have m: "map_of ?ds ''openweather'' = Some ?ow" by simp
  obtain c where c: "combine_data_sources (PStr ''2024-04-09T10:00:00'') ?ds = Inr c"
    by (simp add: combine_data_sources_def derive_aqi_def categorise_def dict_get_def
        dict_get_default_def fetcher_category_def)
  have "map_of c ''PM2.5'' = Some PNone \<and> map_of c ''PM10'' = Some PNone"
    using omitted_openweather_field_stays_none
      [OF d m, of "[]" "PStr ''2024-04-09T10:00:00''"] c
    by simp
  then show ?thesis using c by (simp add: dict_get_def)
qed

text \<open>
  C5 (as amended).  When OpenWeather's payload is the only source and supplies
  PM2.5 = 40, the combined reading's AQI is \<open>calculate_aqi_from_pm25 40\<close>, that is
  111.5: the fetcher's own PM2.5 formula.
\<close>

theorem derived_aqi_is_pm25_formula:
  assumes "map_of ow ''pm2_5'' = Some (PNum 40)"
  shows "combined_field (combine_data_sources now [(''openweather'', ow)]) ''AQI''
           = Some (PNum (calculate_aqi_from_pm25 40)) \<and>
         calculate_aqi_from_pm25 40 = 223 / 2"
proof -
  have v40: "calculate_aqi_from_pm25 40 = 223 / 2"
    by (simp add: calculate_aqi_from_pm25_def float_eval)
  have "combined_field (combine_data_sources now [(''openweather'', ow)]) ''AQI''
          = Some (PNum (calculate_aqi_from_pm25 40))"
    using assms
    by (simp add: combine_data_sources_def derive_aqi_def categorise_def dict_get_def
        dict_get_default_def map_of_dict_set v40)
  then show ?thesis using v40 by simp
qed

theorem derived_aqi_is_pm25_formula_witness:
  "map_of [(''aqi'', PNum 3), (''co'', PNum 300), (''no2'', PNum 20), (''pm2_5'', PNum 40),
           (''pm10'', PNum 80), (''source'', PStr ''OpenWeatherMap'')] ''pm2_5''
     = Some (PNum 40) \<and>
   combined_field
     (combine_data_sources (PStr ''2024-04-09T10:00:00'')
        [(''openweather'',
          [(''aqi'', PNum 3), (''co'', PNum 300), (''no2'', PNum 20), (''pm2_5'', PNum 40),
           (''pm10'', PNum 80), (''source'', PStr ''OpenWeatherMap'')])])
     ''AQI'' = Some (PNum (223 / 2))"
  using derived_aqi_is_pm25_formula
    [of "[(''aqi'', PNum 3), (''co'', PNum 300), (''no2'', PNum 20), (''pm2_5'', PNum 40),
          (''pm10'', PNum 80), (''source'', PStr ''OpenWeatherMap'')]"
        "PStr ''2024-04-09T10:00:00''"]
  by simp

text \<open>
  C5 as stated fails: for that input the combined AQI is 111.5, and the AQI calculator
  of section 4.1 (the breakpoint table with the maximum across pollutants) gives 67 for
  PM2.5 = 40.
\<close>

theorem derived_aqi_differs_from_table_aqi:
  "combined_field
     (combine_data_sources (PStr ''2024-04-09T10:00:00'')
        [(''openweather'', [(''pm2_5'', PNum 40)])])
     ''AQI'' = Some (PNum (223 / 2)) \<and>
   aqi (get_air_quality_index [(''PM2.5'', 40)]) = 67"
  by (simp add: combine_data_sources_def derive_aqi_def categorise_def dict_get_def
      dict_get_default_def calculate_aqi_from_pm25_def get_air_quality_index_def
      aqi_breakpoints_def float_eval)

text \<open>
  C7.  When each of the three fetch functions yields \<open>None\<close>, the combined fetch
  returns \<open>None\<close>: it does not raise and builds no record.
\<close>

theorem all_providers_absent:
  assumes "fetch_openweather_pollution w city = None"
    and "fetch_airvisual_data w city = None"
    and "fetch_waqi_data w city = None"
  shows "fetch_combined_data w city = Inr None"
  using assms by (simp add: fetch_combined_data_def)

lemma fetch_airvisual_data_none: "fetch_airvisual_data w city = None"
  by (cases city) (simp_all add: fetcher_attributes_def split: option.splits)

lemma fetch_waqi_data_none: "fetch_waqi_data w city = None"
  by (cases city) (simp_all add: fetcher_attributes_def)

theorem all_providers_absent_witness:
  "fetch_openweather_pollution (sample_world \<lparr> openweather_http := (\<lambda>c. None) \<rparr>) (PStr ''Mumbai'') = None \<and>
   fetch_airvisual_data (sample_world \<lparr> openweather_http := (\<lambda>c. None) \<rparr>) (PStr ''Mumbai'') = None \<and>
   fetch_waqi_data (sample_world \<lparr> openweather_http := (\<lambda>c. None) \<rparr>) (PStr ''Mumbai'') = None \<and>
   fetch_combined_data (sample_world \<lparr> openweather_http := (\<lambda>c. None) \<rparr>) (PStr ''Mumbai'') = Inr None"
proof -
  let ?w = "sample_world \<lparr> openweather_http := (\<lambda>c. None) \<rparr>"
  have a: "fetch_openweather_pollution ?w (PStr ''Mumbai'') = None"
    by (simp add: city_coords_def fetcher_attributes_def sample_world_def)
  have b: "fetch_airvisual_data ?w (PStr ''Mumbai'') = None"
    by (simp add: city_mapping_def fetcher_attributes_def)
  have c: "fetch_waqi_data ?w (PStr ''Mumbai'') = None"
    by (simp add: fetcher_attributes_def)
  show ?thesis using a b c all_providers_absent [OF a b c] by simp
qed

section \<open>Properties of the category chains\<close>















section \<open>Properties of the request handlers\<close>

lemma unsupported_city_tables:
  assumes "city \<notin> set supported_cities"
  shows "map_of city_coords city = None" and "map_of base_pollution city = None"
  using assms by (auto simp add: supported_cities_def city_coords_def base_pollution_def)

lemma fetch_openweather_pollution_unsupported:
  "city \<notin> set supported_cities \<Longrightarrow> fetch_openweather_pollution w (PStr city) = None"
  by (simp add: unsupported_city_tables)

text \<open>
  C8.  For a city name outside the supported set, the current-conditions request gets
  no real reading (OpenWeather and AirVisual have no entry for the city, and the
  AirVisual and WAQI fetches fail on the attribute the constructor never sets), the
  synthetic generator runs on the default base 75, and the response is a success with
  status 200 and data type synthetic.
\<close>

theorem unsupported_city_default_baseline:
  assumes "city \<notin> set supported_cities"
    and "map_of data ''city'' = Some (PStr city)"
  shows "generate_current_conditions w (PStr city) = Inr (conditions_from_base w 75) \<and>
         get_current_conditions w (Json (PDict data))
           = Current (PStr city) (conditions_from_base w 75) ''synthetic'' \<and>
         status (get_current_conditions w (Json (PDict data))) = 200 \<and>
         success (get_current_conditions w (Json (PDict data)))"
proof -
  have data: "data \<noteq> []" using assms(2) by auto
  have gen: "generate_current_conditions w (PStr city) = Inr (conditions_from_base w 75)"
    using assms(1) by (simp add: generate_current_conditions_def unsupported_city_tables)
  have fetch: "fetch_combined_data w (PStr city) = Inr None"
    using assms(1)
    by (simp add: fetch_combined_data_def fetch_openweather_pollution_unsupported
        fetch_airvisual_data_none fetch_waqi_data_none del: fetch_openweather_pollution.simps)
  have "get_current_conditions w (Json (PDict data))
          = Current (PStr city) (conditions_from_base w 75) ''synthetic''"
    using data assms(2) gen fetch
    by (simp add: get_current_conditions_def synthetic_response_def)
  then show ?thesis using gen by simp
qed

theorem unsupported_city_default_baseline_witness:
  "''Pune'' \<notin> set supported_cities \<and>
   map_of [(''city'', PStr ''Pune'')] ''city'' = Some (PStr ''Pune'') \<and>
   openweather_http sample_world ''Pune'' \<noteq> None \<and>
   get_current_conditions sample_world (Json (PDict [(''city'', PStr ''Pune'')]))
     = Current (PStr ''Pune'') (conditions_from_base sample_world 75) ''synthetic'' \<and>
   map_of (conditions_from_base sample_world 75) ''PM2.5'' = Some (PNum (155 / 2))"
proof -
  have a: "''Pune'' \<notin> set supported_cities" by (simp add: supported_cities_def)
  have b: "map_of [(''city'', PStr ''Pune'')] ''city'' = Some (PStr ''Pune'')" by simp
  have c: "openweather_http sample_world ''Pune'' \<noteq> None" by (simp add: sample_world_def)
  have d: "map_of (conditions_from_base sample_world 75) ''PM2.5'' = Some (PNum (155 / 2))"
    by (simp add: conditions_from_base_def sample_world_def uniform_def py_round_to_def
        float_eval)
  show ?thesis
    using a b c d unsupported_city_default_baseline [OF a b, of sample_world] by simp
qed

lemma historical_loop_total:
  "\<forall>d \<in> set days. days_ago w d \<noteq> None \<Longrightarrow>
   \<exists>h. historical_loop w base days acc = Inr h \<and> length h = length acc + length days"
proof (induction days arbitrary: acc)
  case Nil
  show ?case by simp
next
  case (Cons day days)
  then obtain date where date: "days_ago w day = Some date" by auto
  have "\<forall>d \<in> set days. days_ago w d \<noteq> None" using Cons.prems by simp
  then obtain h where
    "historical_loop w base days (acc @ [historical_entry w base day date]) = Inr h"
    "length h = length (acc @ [historical_entry w base day date]) + length days"
    using Cons.IH [of "acc @ [historical_entry w base day date]"] by blast
  then show ?case using date by simp
qed

text \<open>
  What the amended claim leaves out: a request without decodable JSON, and a body that
  is a number, are answered with status 500 by all three handlers.
\<close>

lemma undecodable_body_responses:
  "status (get_current_conditions w NoJson) = 500 \<and>
   status (get_forecast w NoJson) = 500 \<and>
   status (get_historical_data w NoJson) = 500 \<and>
   (x \<noteq> 0 \<longrightarrow> status (get_current_conditions w (Json (PNum x))) = 500 \<and>
                status (get_forecast w (Json (PNum x))) = 500) \<and>
   status (get_historical_data w (Json (PNum x))) = 500"
  by (simp add: get_current_conditions_def get_forecast_def get_historical_data_def)

text \<open>
  C9 (as amended).  A request whose body decodes to a JSON object without the city
  field, or to a falsy value (null, an empty object), is answered with status 400 and
  \<open>success: false\<close> by the current-conditions and the forecast endpoints; for an
  object with a city, the forecast endpoint also answers 400 when \<open>hours\<close> is a
  string that \<open>int\<close> rejects or an integer outside 1..168.  The historical endpoint
  has no required parameter: an object without city is served for Mumbai, over the days
  the body asks for, seven by default.
\<close>

theorem missing_city_responses:
  "((\<not> truthy data \<or> key_in ''city'' data = Inr False) \<longrightarrow>
      get_current_conditions w (Json data) = Failure 400 (Msg ''City parameter is required'') \<and>
      get_forecast w (Json data) = Failure 400 (Msg ''City parameter is required'')) \<and>
   (map_of d ''city'' \<noteq> None \<and> map_of d ''hours'' = Some (PStr s) \<and>
    int_of_str w s = None \<longrightarrow>
      get_forecast w (Json (PDict d)) = Failure 400 (InvalidInput ValueError)) \<and>
   (map_of d ''city'' \<noteq> None \<and>
    py_int (int_of_str w) (dict_get_default d ''hours'' (PNum 24)) = Inr hours \<and>
    (hours < 1 \<or> 168 < hours) \<longrightarrow>
      get_forecast w (Json (PDict d)) = Failure 400 (Msg ''Hours must be between 1 and 168'')) \<and>
   (map_of d ''city'' = None \<and>
    py_int (int_of_str w) (dict_get_default d ''days'' (PNum 7)) = Inr days \<and>
    (\<forall>k < nat days. days_ago w k \<noteq> None) \<longrightarrow>
      (\<exists>historical_data.
         get_historical_data w (Json (PDict d)) = Historical (PStr ''Mumbai'') historical_data days \<and>
         length historical_data = nat days))"
proof (intro conjI impI)
  assume "\<not> truthy data \<or> key_in ''city'' data = Inr False"
  then show "get_current_conditions w (Json data) = Failure 400 (Msg ''City parameter is required'')"
    by (auto simp add: get_current_conditions_def)
next
  assume "\<not> truthy data \<or> key_in ''city'' data = Inr False"
  then show "get_forecast w (Json data) = Failure 400 (Msg ''City parameter is required'')"
    by (auto simp add: get_forecast_def)
next
  assume a: "map_of d ''city'' \<noteq> None \<and> map_of d ''hours'' = Some (PStr s) \<and>
          int_of_str w s = None"
  then have "d \<noteq> []" by auto
  then show "get_forecast w (Json (PDict d)) = Failure 400 (InvalidInput ValueError)"
    using a by (auto simp add: get_forecast_def dict_get_default_def)
next
  assume a: "map_of d ''city'' \<noteq> None \<and>
          py_int (int_of_str w) (dict_get_default d ''hours'' (PNum 24)) = Inr hours \<and>
          (hours < 1 \<or> 168 < hours)"
  then have "d \<noteq> []" by auto
  then show "get_forecast w (Json (PDict d)) = Failure 400 (Msg ''Hours must be between 1 and 168'')"
    using a by (auto simp add: get_forecast_def)
next
  assume a: "map_of d ''city'' = None \<and>
             py_int (int_of_str w) (dict_get_default d ''days'' (PNum 7)) = Inr days \<and>
             (\<forall>k < nat days. days_ago w k \<noteq> None)"
  then have "\<forall>k \<in> set [0 ..< nat days]. days_ago w k \<noteq> None" by simp
  then obtain h where h: "historical_loop w 80 [0 ..< nat days] [] = Inr h"
    "length h = length ([]::pydict list) + length [0 ..< nat days]"
    using historical_loop_total by blast
  have "get_historical_data w (Json (PDict d)) = Historical (PStr ''Mumbai'') (rev h) days"
    using a h(1)
    by (simp add: get_historical_data_def dict_get_default_def generate_historical_data_def
        base_pollution_def)
  moreover have "length (rev h) = nat days" using h(2) by simp
  ultimately show "\<exists>historical_data.
      get_historical_data w (Json (PDict d)) = Historical (PStr ''Mumbai'') historical_data days \<and>
      length historical_data = nat days"
    by blast
qed

theorem missing_city_responses_witness:
  "get_current_conditions sample_world (Json (PDict [(''days'', PNum 3)]))
     = Failure 400 (Msg ''City parameter is required'') \<and>
   get_forecast sample_world (Json (PDict [(''hours'', PNum 12)]))
     = Failure 400 (Msg ''City parameter is required'') \<and>
   get_current_conditions sample_world (Json PNone)
     = Failure 400 (Msg ''City parameter is required'') \<and>
   get_forecast sample_world (Json (PDict []))
     = Failure 400 (Msg ''City parameter is required'') \<and>
   get_forecast sample_world
       (Json (PDict [(''city'', PStr ''Delhi''), (''hours'', PStr ''soon'')]))
     = Failure 400 (InvalidInput ValueError) \<and>
   get_forecast sample_world (Json (PDict [(''city'', PStr ''Delhi''), (''hours'', PNum 500)]))
     = Failure 400 (Msg ''Hours must be between 1 and 168'') \<and>
   status (get_historical_data sample_world (Json (PDict [(''days'', PNum 2)]))) = 200"
proof -
  have a: "get_current_conditions sample_world (Json (PDict [(''days'', PNum 3)]))
             = Failure 400 (Msg ''City parameter is required'')"
    using missing_city_responses [of "PDict [(''days'', PNum 3)]" sample_world] by simp
  have b: "get_forecast sample_world (Json (PDict [(''hours'', PNum 12)]))
             = Failure 400 (Msg ''City parameter is required'')"
    using missing_city_responses [of "PDict [(''hours'', PNum 12)]" sample_world] by simp
  have a': "get_current_conditions sample_world (Json PNone)
             = Failure 400 (Msg ''City parameter is required'')"
    using missing_city_responses [of PNone sample_world] by simp
  have b': "get_forecast sample_world (Json (PDict []))
             = Failure 400 (Msg ''City parameter is required'')"
    using missing_city_responses [of "PDict []" sample_world] by simp
  have c: "get_forecast sample_world
               (Json (PDict [(''city'', PStr ''Delhi''), (''hours'', PStr ''soon'')]))
             = Failure 400 (InvalidInput ValueError)"
    using missing_city_responses
      [of _ sample_world "[(''city'', PStr ''Delhi''), (''hours'', PStr ''soon'')]" "''soon''"]
    by (simp add: sample_world_def)
  have d: "get_forecast sample_world
               (Json (PDict [(''city'', PStr ''Delhi''), (''hours'', PNum 500)]))
             = Failure 400 (Msg ''Hours must be between 1 and 168'')"
    using missing_city_responses
      [of _ sample_world "[(''city'', PStr ''Delhi''), (''hours'', PNum 500)]" _ 500]
    by (simp add: dict_get_default_def)
  have e: "status (get_historical_data sample_world (Json (PDict [(''days'', PNum 2)]))) = 200"
  proof -
    have days: "\<forall>k < nat 2. days_ago sample_world k \<noteq> None" by (simp add: sample_world_def)
    have int: "py_int (int_of_str sample_world) (dict_get_default [(''days'', PNum 2)] ''days'' (PNum 7))
                 = Inr 2"
      by (simp add: dict_get_default_def)
    obtain historical_data where
      "get_historical_data sample_world (Json (PDict [(''days'', PNum 2)]))
         = Historical (PStr ''Mumbai'') historical_data 2"
      using missing_city_responses [of PNone sample_world "[(''days'', PNum 2)]" _ _ 2] days int
      by auto
    then show ?thesis by simp
  qed
  show ?thesis using a b a' b' c d e by simp
qed

text \<open>
  C9 as stated fails on the historical endpoint: a body lacking the city field is
  answered with status 200, \<open>success: true\<close> and the data of the default city.
\<close>

theorem get_historical_data_defaults_city:
  "map_of [(''days'', PNum 3)] ''city'' = None \<and>
   status (get_historical_data sample_world (Json (PDict [(''days'', PNum 3)]))) = 200 \<and>
   success (get_historical_data sample_world (Json (PDict [(''days'', PNum 3)]))) \<and>
   (case get_historical_data sample_world (Json (PDict [(''days'', PNum 3)])) of
      Historical city historical_data days \<Rightarrow>
        city = PStr ''Mumbai'' \<and> days = 3 \<and> length historical_data = 3
    | _ \<Rightarrow> False)"
proof -
  have range: "[0 ..< (3::nat)] = [0, 1, 2]" by (simp add: upt_rec)
  show ?thesis
    by (simp add: get_historical_data_def dict_get_default_def generate_historical_data_def
        base_pollution_def sample_world_def range)
qed

end
